theory Spec2Isabelle
  imports Complex_Main "HOL-Library.Monad_Syntax"
begin

section \<open>Distribution descriptors of squigglepy (\<^verbatim>\<open>squigglepy/distributions.py\<close>)\<close>

text \<open>
  The module builds descriptors of probability distributions. Each class derives from
  \<^verbatim>\<open>BaseDistribution\<close>, whose constructor sets every field to \<^verbatim>\<open>None\<close>; a subclass
  constructor then stores its arguments, validates them and, for the normal and the
  lognormal distribution, infers \<^verbatim>\<open>mean\<close> and \<^verbatim>\<open>sd\<close> from a credible interval.

  Conventions of the embedding.
  \<^item> The interval endpoints, \<^verbatim>\<open>credibility\<close>, the clip bounds and \<^verbatim>\<open>t\<close> are finite
    numbers, int or float, and stand here as the real number they denote; that is all a
    comparison such as \<^verbatim>\<open>self.x > self.y\<close> looks at. An argument that may be \<^verbatim>\<open>None\<close>
    is a \<open>real option\<close>.
  \<^item> \<^verbatim>\<open>mean\<close> and \<^verbatim>\<open>sd\<close> are stored, never compared; they are values of \<open>pynum\<close>, a
    finite number, an infinity or NaN, since the inference can produce each of these.
  \<^item> The arithmetic of Python on int and float (\<^verbatim>\<open>+\<close>, \<^verbatim>\<open>-\<close>, \<^verbatim>\<open>*\<close>, \<^verbatim>\<open>/\<close>) is not
    defined in this theory. Its results depend on the run-time types of the operands,
    are rounded to the binary floating point format, can overflow to an infinity and
    can raise (an \<^verbatim>\<open>OverflowError\<close> on an int beyond the range of float). The four
    operations are fields of the record \<open>arith\<close>, which every constructor that computes
    takes as its parameter \<open>ar\<close>; an operation yields \<open>None\<close> where it raises. The
    statements below hold for every \<open>ar\<close>, hence for the operations as Python performs
    them on the operands of any one call.
  \<^item> Arguments whose run-time type the code inspects or merely stores (\<^verbatim>\<open>p\<close>, \<^verbatim>\<open>n\<close>,
    \<^verbatim>\<open>items\<close>) are values of the datatype \<open>pyval\<close>.
  \<^item> Every \<^verbatim>\<open>raise\<close> is an \<open>Inl\<close> result; a constructor that returns normally yields
    \<open>Inr\<close> of the finished object.
  \<^item> \<^verbatim>\<open>scipy.stats.norm.ppf\<close>, the quantile function of the standard normal
    distribution, and \<^verbatim>\<open>np.log\<close>, the natural logarithm, are library functions: they
    are two more fields of \<open>arith\<close>.
  \<^item> Keyword defaults are passed explicitly; the default \<^verbatim>\<open>credibility\<close> is
    \<open>default_credibility\<close>.
\<close>

subsection \<open>Python values\<close>

datatype pyval =
    PyNone
  | PyBool bool
  | PyInt int
  | PyFloat real
  | PyStr string
  | PyList "pyval list"
  | PyTuple "pyval list"
  | PyDict "(pyval \<times> pyval) list"

text \<open>\<^verbatim>\<open>isinstance\<close> for the four classes the module tests. \<^verbatim>\<open>bool\<close> is a subclass of
  \<^verbatim>\<open>int\<close>, so a Boolean is an instance of \<^verbatim>\<open>int\<close>.\<close>

fun isinstance_float :: "pyval \<Rightarrow> bool" where
  "isinstance_float (PyFloat r) = True"
| "isinstance_float v = False"

fun isinstance_int :: "pyval \<Rightarrow> bool" where
  "isinstance_int (PyInt i) = True"
| "isinstance_int (PyBool b) = True"
| "isinstance_int v = False"

fun isinstance_dict :: "pyval \<Rightarrow> bool" where
  "isinstance_dict (PyDict kvs) = True"
| "isinstance_dict v = False"

fun isinstance_list :: "pyval \<Rightarrow> bool" where
  "isinstance_list (PyList vs) = True"
| "isinstance_list v = False"

text \<open>The number a numeric value stands for in a comparison such as \<^verbatim>\<open>p < 0\<close>. It is
  only applied behind a type test; on other values the comparison is the
  \<^verbatim>\<open>TypeError\<close> branch of its caller.\<close>

fun number_of :: "pyval \<Rightarrow> real option" where
  "number_of (PyFloat r) = Some r"
| "number_of (PyInt i) = Some (real_of_int i)"
| "number_of (PyBool b) = Some (if b then 1 else 0)"
| "number_of v = None"

subsection \<open>Errors\<close>

text \<open>Every \<^verbatim>\<open>raise\<close> of the module is a \<^verbatim>\<open>ValueError\<close>; what tells the failures
  apart is the message. There is one constructor per message, plus \<open>TypeError\<close> for
  arithmetic or comparison on a value that is not a number, and \<open>OperationError\<close> for an
  exception raised inside an operation of \<open>arith\<close>.\<close>

datatype error =
    HighLowerThanLow
      \<comment> \<open>\<^verbatim>\<open>`high value` cannot be lower than `low value`\<close>\<close>
  | LognormalNotPositive
      \<comment> \<open>\<^verbatim>\<open>lognormal distribution must have values >= 0.\<close>\<close>
  | MustDefineEither
      \<comment> \<open>\<^verbatim>\<open>must define either x/y or mean/sd\<close>\<close>
  | CannotDefineBoth
      \<comment> \<open>\<^verbatim>\<open>must define either x/y or mean/sd -- cannot define both\<close>\<close>
  | BernoulliNotFloatOrInt
      \<comment> \<open>\<^verbatim>\<open>bernoulli p must be a float or int\<close>\<close>
  | BernoulliOutOfRange
      \<comment> \<open>\<^verbatim>\<open>bernoulli p must be 0-1\<close>\<close>
  | DiscreteNotDictOrList
      \<comment> \<open>\<^verbatim>\<open>inputs to discrete must be a dict or list\<close>\<close>
  | BothOrNeither
      \<comment> \<open>\<^verbatim>\<open>must define either both `x` and `y` or neither.\<close>\<close>
  | TypeError
  | OperationError

text \<open>The specification groups the failures into four kinds. The source has no such
  classes, so the grouping is by message: the ordering message is a range-order error,
  the two "must define either" messages and the "both or neither" message are parameter
  conflicts, the lognormal and the Bernoulli range messages are domain errors, and the
  two messages about the type of an argument are validation errors, as is a
  \<open>TypeError\<close>. An exception out of an arithmetic operation or a library function is of
  none of the four kinds.\<close>

datatype error_kind =
  RangeOrderError | ParameterConflictError | DomainError | ValidationError | UnclassifiedError

fun kind_of :: "error \<Rightarrow> error_kind" where
  "kind_of HighLowerThanLow = RangeOrderError"
| "kind_of LognormalNotPositive = DomainError"
| "kind_of MustDefineEither = ParameterConflictError"
| "kind_of CannotDefineBoth = ParameterConflictError"
| "kind_of BernoulliNotFloatOrInt = ValidationError"
| "kind_of BernoulliOutOfRange = DomainError"
| "kind_of DiscreteNotDictOrList = ValidationError"
| "kind_of BothOrNeither = ParameterConflictError"
| "kind_of TypeError = ValidationError"
| "kind_of OperationError = UnclassifiedError"

subsection \<open>Numbers and their arithmetic\<close>

text \<open>What a float can hold; an int is always finite.\<close>

datatype pynum = Num real | PosInf | NegInf | NaN

text \<open>The operations the constructors call. \<open>py_add a b\<close> is \<^verbatim>\<open>a + b\<close>, \<open>py_sub a b\<close> is
  \<^verbatim>\<open>a - b\<close>, \<open>py_mul a b\<close> is \<^verbatim>\<open>a * b\<close>, \<open>py_truediv a b\<close> is \<^verbatim>\<open>a / b\<close>, \<open>np_log\<close> is
  \<^verbatim>\<open>np.log\<close> and \<open>norm_ppf\<close> is \<^verbatim>\<open>stats.norm.ppf\<close>. The result is \<open>None\<close> when the
  operation raises.\<close>

record arith =
  py_add :: "pynum \<Rightarrow> pynum \<Rightarrow> pynum option"
  py_sub :: "pynum \<Rightarrow> pynum \<Rightarrow> pynum option"
  py_mul :: "pynum \<Rightarrow> pynum \<Rightarrow> pynum option"
  py_truediv :: "pynum \<Rightarrow> pynum \<Rightarrow> pynum option"
  np_log :: "pynum \<Rightarrow> pynum option"
  norm_ppf :: "pynum \<Rightarrow> pynum option"

subsection \<open>The descriptor\<close>

text \<open>The fields of \<^verbatim>\<open>BaseDistribution\<close>, in the order of its constructor; the field
  \<^verbatim>\<open>self.f\<close> is \<open>self_f\<close>. \<^verbatim>\<open>None\<close> is \<open>None\<close> in a numeric field and \<open>PyNone\<close> in
  a field holding a Python value.\<close>

record distribution =
  self_x :: "real option"
  self_y :: "real option"
  self_n :: pyval
  self_p :: pyval
  self_t :: "real option"
  self_a :: "real option"
  self_b :: "real option"
  self_shape :: "real option"
  self_scale :: "real option"
  self_credibility :: "real option"
  self_mean :: "pynum option"
  self_sd :: "pynum option"
  self_left :: "real option"
  self_mode :: "real option"
  self_right :: "real option"
  self_lclip :: "real option"
  self_rclip :: "real option"
  self_lam :: "real option"
  self_items :: pyval
  self_dists :: pyval
  self_weights :: pyval
  self_type :: string

definition BaseDistribution :: distribution where
  "BaseDistribution =
     \<lparr> self_x = None, self_y = None, self_n = PyNone, self_p = PyNone, self_t = None,
       self_a = None, self_b = None, self_shape = None, self_scale = None,
       self_credibility = None, self_mean = None, self_sd = None, self_left = None,
       self_mode = None, self_right = None, self_lclip = None, self_rclip = None,
       self_lam = None, self_items = PyNone, self_dists = PyNone, self_weights = PyNone,
       self_type = ''BaseDistribution'' \<rparr>"

definition default_credibility :: real where
  "default_credibility = 90"

subsection \<open>Normal distribution\<close>

text \<open>\<^verbatim>\<open>NormalDistribution.__init__\<close>. The comparison \<^verbatim>\<open>self.x > self.y\<close> is only
  evaluated behind the two \<^verbatim>\<open>is not None\<close> tests. Adding \<^verbatim>\<open>None\<close> raises a
  \<^verbatim>\<open>TypeError\<close>. The inference runs the operations in the order in which Python
  evaluates the three assignments, and stops at the first one that raises.\<close>

definition NormalDistribution ::
  "arith \<Rightarrow> real option \<Rightarrow> real option \<Rightarrow> pynum option \<Rightarrow> pynum option \<Rightarrow>
   real \<Rightarrow> real option \<Rightarrow> real option \<Rightarrow> error + distribution" where
  "NormalDistribution ar x y mean sd credibility lclip rclip =
     (let self = BaseDistribution\<lparr>self_x := x, self_y := y,
                   self_credibility := Some credibility, self_mean := mean, self_sd := sd,
                   self_lclip := lclip, self_rclip := rclip, self_type := ''norm''\<rparr>
      in if self_x self \<noteq> None \<and> self_y self \<noteq> None \<and> the (self_x self) > the (self_y self)
         then Inl HighLowerThanLow
         else if (self_x self = None \<or> self_y self = None) \<and> self_sd self = None
         then Inl MustDefineEither
         else if (self_x self \<noteq> None \<or> self_y self \<noteq> None) \<and> self_sd self \<noteq> None
         then Inl CannotDefineBoth
         else
           (let self = (if self_sd self \<noteq> None \<and> self_mean self = None
                        then self\<lparr>self_mean := Some (Num 0)\<rparr> else self)
            in if self_mean self = None \<and> self_sd self = None
               then (case (self_x self, self_y self, self_credibility self) of
                       (Some xv, Some yv, Some c) \<Rightarrow>
                         (case do {
                                 s \<leftarrow> py_add ar (Num xv) (Num yv);
                                 mean' \<leftarrow> py_truediv ar s (Num 2);
                                 q \<leftarrow> py_truediv ar (Num c) (Num 100);
                                 h \<leftarrow> py_mul ar (Num 0.5) q;
                                 cdf_value \<leftarrow> py_add ar (Num 0.5) h;
                                 normed_sigma \<leftarrow> norm_ppf ar cdf_value;
                                 dlt \<leftarrow> py_sub ar (Num yv) mean';
                                 sd' \<leftarrow> py_truediv ar dlt normed_sigma;
                                 Some (mean', sd')
                               } of
                            None \<Rightarrow> Inl OperationError
                          | Some (mean', sd') \<Rightarrow>
                              Inr (self\<lparr>self_mean := Some mean', self_sd := Some sd'\<rparr>))
                     | _ \<Rightarrow> Inl TypeError)
               else Inr self))"

definition norm_dist ::
  "arith \<Rightarrow> real option \<Rightarrow> real option \<Rightarrow> real \<Rightarrow> pynum option \<Rightarrow> pynum option \<Rightarrow>
   real option \<Rightarrow> real option \<Rightarrow> error + distribution" where
  "norm_dist ar x y credibility mean sd lclip rclip =
     NormalDistribution ar x y mean sd credibility lclip rclip"

subsection \<open>Lognormal distribution\<close>

text \<open>\<^verbatim>\<open>LognormalDistribution.__init__\<close>: the normal constructor with one more check,
  \<^verbatim>\<open>self.x <= 0\<close>, placed after the ordering check, and the inference on the
  logarithms of the endpoints; \<^verbatim>\<open>np.log(self.y)\<close> is called twice.\<close>

definition LognormalDistribution ::
  "arith \<Rightarrow> real option \<Rightarrow> real option \<Rightarrow> pynum option \<Rightarrow> pynum option \<Rightarrow>
   real \<Rightarrow> real option \<Rightarrow> real option \<Rightarrow> error + distribution" where
  "LognormalDistribution ar x y mean sd credibility lclip rclip =
     (let self = BaseDistribution\<lparr>self_x := x, self_y := y,
                   self_credibility := Some credibility, self_mean := mean, self_sd := sd,
                   self_lclip := lclip, self_rclip := rclip, self_type := ''lognorm''\<rparr>
      in if self_x self \<noteq> None \<and> self_y self \<noteq> None \<and> the (self_x self) > the (self_y self)
         then Inl HighLowerThanLow
         else if self_x self \<noteq> None \<and> the (self_x self) \<le> 0
         then Inl LognormalNotPositive
         else if (self_x self = None \<or> self_y self = None) \<and> self_sd self = None
         then Inl MustDefineEither
         else if (self_x self \<noteq> None \<or> self_y self \<noteq> None) \<and> self_sd self \<noteq> None
         then Inl CannotDefineBoth
         else
           (let self = (if self_sd self \<noteq> None \<and> self_mean self = None
                        then self\<lparr>self_mean := Some (Num 0)\<rparr> else self)
            in if self_mean self = None \<and> self_sd self = None
               then (case (self_x self, self_y self, self_credibility self) of
                       (Some xv, Some yv, Some c) \<Rightarrow>
                         (case do {
                                 lx \<leftarrow> np_log ar (Num xv);
                                 ly \<leftarrow> np_log ar (Num yv);
                                 s \<leftarrow> py_add ar lx ly;
                                 mean' \<leftarrow> py_truediv ar s (Num 2);
                                 q \<leftarrow> py_truediv ar (Num c) (Num 100);
                                 h \<leftarrow> py_mul ar (Num 0.5) q;
                                 cdf_value \<leftarrow> py_add ar (Num 0.5) h;
                                 normed_sigma \<leftarrow> norm_ppf ar cdf_value;
                                 ly' \<leftarrow> np_log ar (Num yv);
                                 dlt \<leftarrow> py_sub ar ly' mean';
                                 sd' \<leftarrow> py_truediv ar dlt normed_sigma;
                                 Some (mean', sd')
                               } of
                            None \<Rightarrow> Inl OperationError
                          | Some (mean', sd') \<Rightarrow>
                              Inr (self\<lparr>self_mean := Some mean', self_sd := Some sd'\<rparr>))
                     | _ \<Rightarrow> Inl TypeError)
               else Inr self))"

definition lognorm ::
  "arith \<Rightarrow> real option \<Rightarrow> real option \<Rightarrow> real \<Rightarrow> pynum option \<Rightarrow> pynum option \<Rightarrow>
   real option \<Rightarrow> real option \<Rightarrow> error + distribution" where
  "lognorm ar x y credibility mean sd lclip rclip =
     LognormalDistribution ar x y mean sd credibility lclip rclip"

subsection \<open>The dispatcher\<close>

text \<open>\<^verbatim>\<open>to(x, y, credibility, lclip, rclip)\<close>: both endpoints are required arguments;
  \<^verbatim>\<open>mean\<close> and \<^verbatim>\<open>sd\<close> keep their default \<^verbatim>\<open>None\<close> in the call it makes.\<close>

definition to ::
  "arith \<Rightarrow> real \<Rightarrow> real \<Rightarrow> real \<Rightarrow> real option \<Rightarrow> real option \<Rightarrow>
   error + distribution" where
  "to ar x y credibility lclip rclip =
     (if x > 0 then lognorm ar (Some x) (Some y) credibility None None lclip rclip
      else norm_dist ar (Some x) (Some y) credibility None None lclip rclip)"

subsection \<open>Binomial and Bernoulli distribution\<close>

text \<open>\<^verbatim>\<open>BinomialDistribution.__init__\<close> stores its arguments and has no \<^verbatim>\<open>raise\<close>.\<close>

definition BinomialDistribution :: "pyval \<Rightarrow> pyval \<Rightarrow> error + distribution" where
  "BinomialDistribution n p =
     Inr (BaseDistribution\<lparr>self_n := n, self_p := p, self_type := ''binomial''\<rparr>)"

definition binomial_dist :: "pyval \<Rightarrow> pyval \<Rightarrow> error + distribution" where
  "binomial_dist n p = BinomialDistribution n p"

text \<open>\<^verbatim>\<open>BernoulliDistribution.__init__\<close>. Its first test is
  \<^verbatim>\<open>not isinstance(p, float) or isinstance(p, int)\<close>, where \<^verbatim>\<open>not\<close> binds tighter than
  \<^verbatim>\<open>or\<close>. The comparisons \<^verbatim>\<open>p < 0\<close> and \<^verbatim>\<open>p > 1\<close> follow it.\<close>

definition BernoulliDistribution :: "pyval \<Rightarrow> error + distribution" where
  "BernoulliDistribution p =
     (if \<not> isinstance_float p \<or> isinstance_int p then Inl BernoulliNotFloatOrInt
      else (case number_of p of
              None \<Rightarrow> Inl TypeError
            | Some r \<Rightarrow>
                if r < 0 \<or> r > 1 then Inl BernoulliOutOfRange
                else Inr (BaseDistribution\<lparr>self_p := p, self_type := ''bernoulli''\<rparr>)))"

definition bernoulli :: "pyval \<Rightarrow> error + distribution" where
  "bernoulli p = BernoulliDistribution p"

subsection \<open>Discrete distribution\<close>

definition DiscreteDistribution :: "pyval \<Rightarrow> error + distribution" where
  "DiscreteDistribution items =
     (if \<not> isinstance_dict items \<and> \<not> isinstance_list items then Inl DiscreteNotDictOrList
      else Inr (BaseDistribution\<lparr>self_items := items, self_type := ''discrete''\<rparr>))"

definition discrete :: "pyval \<Rightarrow> error + distribution" where
  "discrete items = DiscreteDistribution items"

subsection \<open>Student-t and log-Student-t distribution\<close>

text \<open>\<^verbatim>\<open>TDistribution.__init__\<close> and \<^verbatim>\<open>LogTDistribution.__init__\<close> differ in the type
  name only. The interval is stored, not resolved; without an interval the stored
  credibility is reset to \<^verbatim>\<open>None\<close>.\<close>

definition TDistribution ::
  "real option \<Rightarrow> real option \<Rightarrow> real \<Rightarrow> real \<Rightarrow> real option \<Rightarrow> real option \<Rightarrow>
   error + distribution" where
  "TDistribution x y t credibility lclip rclip =
     (let self = BaseDistribution\<lparr>self_x := x, self_y := y, self_t := Some t,
                   self_credibility := Some credibility,
                   self_lclip := lclip, self_rclip := rclip, self_type := ''tdist''\<rparr>
      in if (self_x self = None \<or> self_y self = None)
            \<and> \<not> (self_x self = None \<and> self_y self = None)
         then Inl BothOrNeither
         else if self_x self \<noteq> None \<and> self_y self \<noteq> None
                 \<and> the (self_x self) > the (self_y self)
         then Inl HighLowerThanLow
         else if self_x self = None then Inr (self\<lparr>self_credibility := None\<rparr>)
         else Inr self)"

definition tdist ::
  "real option \<Rightarrow> real option \<Rightarrow> real \<Rightarrow> real \<Rightarrow> real option \<Rightarrow> real option \<Rightarrow>
   error + distribution" where
  "tdist x y t credibility lclip rclip = TDistribution x y t credibility lclip rclip"

definition LogTDistribution ::
  "real option \<Rightarrow> real option \<Rightarrow> real \<Rightarrow> real \<Rightarrow> real option \<Rightarrow> real option \<Rightarrow>
   error + distribution" where
  "LogTDistribution x y t credibility lclip rclip =
     (let self = BaseDistribution\<lparr>self_x := x, self_y := y, self_t := Some t,
                   self_credibility := Some credibility,
                   self_lclip := lclip, self_rclip := rclip, self_type := ''log_tdist''\<rparr>
      in if (self_x self = None \<or> self_y self = None)
            \<and> \<not> (self_x self = None \<and> self_y self = None)
         then Inl BothOrNeither
         else if self_x self \<noteq> None \<and> self_y self \<noteq> None
                 \<and> the (self_x self) > the (self_y self)
         then Inl HighLowerThanLow
         else if self_x self = None then Inr (self\<lparr>self_credibility := None\<rparr>)
         else Inr self)"

definition log_tdist ::
  "real option \<Rightarrow> real option \<Rightarrow> real \<Rightarrow> real \<Rightarrow> real option \<Rightarrow> real option \<Rightarrow>
   error + distribution" where
  "log_tdist x y t credibility lclip rclip = LogTDistribution x y t credibility lclip rclip"

subsection \<open>Reading a result\<close>

text \<open>A construction fails with an error of kind \<open>k\<close> when it raises and the message
  raised belongs to \<open>k\<close>.\<close>

definition fails_with :: "error + distribution \<Rightarrow> error_kind \<Rightarrow> bool" where
  "fails_with r k \<longleftrightarrow> (case r of Inl e \<Rightarrow> kind_of e = k | Inr d \<Rightarrow> False)"

subsection \<open>An instance of the operations\<close>

text \<open>To run a constructor on concrete arguments the operations must be given. The
  instance \<open>exact_arith\<close> computes on finite numbers without rounding, never overflows,
  raises on a division by zero and on the logarithm of a number that is not positive,
  and reads the quantile from a table: \<open>\<Phi>\<^sup>-\<^sup>1\<close> to four decimals at \<open>0.95\<close>, the argument
  that a credibility of 90 leads to, and at \<open>0.975\<close> (credibility 95), 1 elsewhere. It
  is not the arithmetic of Python; it agrees with it where Python's result is exact,
  as on the small integers used below.\<close>

definition ppf_table :: "real \<Rightarrow> real" where
  "ppf_table q = (if q = 0.95 then 1.6449 else if q = 0.975 then 1.96 else 1)"

fun exact2 :: "(real \<Rightarrow> real \<Rightarrow> real) \<Rightarrow> pynum \<Rightarrow> pynum \<Rightarrow> pynum option" where
  "exact2 f (Num u) (Num v) = Some (Num (f u v))"
| "exact2 f a b = None"

fun exact_truediv :: "pynum \<Rightarrow> pynum \<Rightarrow> pynum option" where
  "exact_truediv (Num u) (Num v) = (if v = 0 then None else Some (Num (u / v)))"
| "exact_truediv a b = None"

fun exact_log :: "pynum \<Rightarrow> pynum option" where
  "exact_log (Num u) = (if u > 0 then Some (Num (ln u)) else None)"
| "exact_log a = None"

fun table_ppf :: "pynum \<Rightarrow> pynum option" where
  "table_ppf (Num q) = Some (Num (ppf_table q))"
| "table_ppf a = None"

definition exact_arith :: arith where
  "exact_arith =
     \<lparr> py_add = exact2 (+), py_sub = exact2 (-), py_mul = exact2 (*),
       py_truediv = exact_truediv, np_log = exact_log, norm_ppf = table_ppf \<rparr>"

section \<open>The dispatcher\<close>

text \<open>
  C2, amended. For all arguments, \<^verbatim>\<open>to(x, y, credibility, lclip, rclip)\<close> is the call
  \<^verbatim>\<open>lognorm(x=x, y=y, credibility, lclip, rclip)\<close> when \<open>x > 0\<close> and the call
  \<^verbatim>\<open>norm(x=x, y=y, credibility, lclip, rclip)\<close> when \<open>x \<le> 0\<close>. Every object it returns is
  of type \<^verbatim>\<open>lognorm\<close> for \<open>x > 0\<close> and of type \<^verbatim>\<open>norm\<close> otherwise, and stores \<open>x\<close>, \<open>y\<close>,
  the credibility and the two clip bounds unchanged. When \<open>x > y\<close> the chosen
  constructor raises its ordering error and no object is returned. When \<open>x \<le> y\<close> every
  check of the chosen constructor passes: an object is returned unless an operation
  of the inference raises. For \<open>x \<le> 0\<close> the mean of the object returned is the value
  that Python computes for \<^verbatim>\<open>(x + y) / 2\<close>.
\<close>

theorem to_dispatch:
  "to ar x y c lclip rclip =
     (if x > 0 then lognorm ar (Some x) (Some y) c None None lclip rclip
      else norm_dist ar (Some x) (Some y) c None None lclip rclip)
   \<and> (\<forall>d. to ar x y c lclip rclip = Inr d \<longrightarrow>
          self_type d = (if x > 0 then ''lognorm'' else ''norm'')
          \<and> self_x d = Some x \<and> self_y d = Some y \<and> self_credibility d = Some c
          \<and> self_lclip d = lclip \<and> self_rclip d = rclip)
   \<and> (x > y \<longrightarrow> to ar x y c lclip rclip = Inl HighLowerThanLow)
   \<and> (x \<le> y \<longrightarrow>
        to ar x y c lclip rclip = Inl OperationError \<or> (\<exists>d. to ar x y c lclip rclip = Inr d))
   \<and> (\<forall>d s m. x \<le> 0 \<and> to ar x y c lclip rclip = Inr d
          \<and> py_add ar (Num x) (Num y) = Some s \<and> py_truediv ar s (Num 2) = Some m \<longrightarrow>
          self_mean d = Some m)"
proof (intro conjI)
  show "to ar x y c lclip rclip =
     (if x > 0 then lognorm ar (Some x) (Some y) c None None lclip rclip
      else norm_dist ar (Some x) (Some y) c None None lclip rclip)"
    by (simp add: to_def)
next
  show "\<forall>d. to ar x y c lclip rclip = Inr d \<longrightarrow>
          self_type d = (if x > 0 then ''lognorm'' else ''norm'')
          \<and> self_x d = Some x \<and> self_y d = Some y \<and> self_credibility d = Some c
          \<and> self_lclip d = lclip \<and> self_rclip d = rclip"
    by (auto simp add: to_def lognorm_def LognormalDistribution_def norm_dist_def
          NormalDistribution_def BaseDistribution_def Let_def
          split: if_splits option.splits prod.splits)
next
  show "x > y \<longrightarrow> to ar x y c lclip rclip = Inl HighLowerThanLow"
    by (simp add: to_def lognorm_def LognormalDistribution_def norm_dist_def
          NormalDistribution_def BaseDistribution_def Let_def)
next
  show "x \<le> y \<longrightarrow>
        to ar x y c lclip rclip = Inl OperationError \<or> (\<exists>d. to ar x y c lclip rclip = Inr d)"
    by (auto simp add: to_def lognorm_def LognormalDistribution_def norm_dist_def
          NormalDistribution_def BaseDistribution_def Let_def
          split: option.splits prod.splits)
next
  show "\<forall>d s m. x \<le> 0 \<and> to ar x y c lclip rclip = Inr d
          \<and> py_add ar (Num x) (Num y) = Some s \<and> py_truediv ar s (Num 2) = Some m \<longrightarrow>
          self_mean d = Some m"
    by (auto simp add: to_def norm_dist_def NormalDistribution_def BaseDistribution_def Let_def
          bind_eq_Some_conv split: if_splits option.splits prod.splits)
qed

text \<open>\<^verbatim>\<open>to(1, 10)\<close> is lognormal, \<^verbatim>\<open>to(-10, 10)\<close> is normal with mean 0, and
  \<^verbatim>\<open>to(5, 1)\<close> raises.\<close>

theorem to_dispatch_witness:
  "(\<exists>d. to exact_arith 1 10 default_credibility None None = Inr d
        \<and> self_type d = ''lognorm'' \<and> self_x d = Some 1 \<and> self_y d = Some 10)
   \<and> (\<exists>d. to exact_arith (- 10) 10 default_credibility None None = Inr d
        \<and> self_type d = ''norm'' \<and> self_x d = Some (- 10) \<and> self_y d = Some 10
        \<and> self_mean d = Some (Num 0))
   \<and> to exact_arith 5 1 default_credibility None None = Inl HighLowerThanLow"
proof -
  have a: "to exact_arith 1 10 default_credibility None None \<noteq> Inl OperationError"
    by (simp add: to_def lognorm_def LognormalDistribution_def BaseDistribution_def Let_def
          exact_arith_def default_credibility_def ppf_table_def)
  have b: "to exact_arith (- 10) 10 default_credibility None None \<noteq> Inl OperationError"
    by (simp add: to_def norm_dist_def NormalDistribution_def BaseDistribution_def Let_def
          exact_arith_def default_credibility_def ppf_table_def)
  have s: "py_add exact_arith (Num (- 10)) (Num 10) = Some (Num 0)"
    and m: "py_truediv exact_arith (Num 0) (Num 2) = Some (Num 0)"
    by (simp_all add: exact_arith_def)
  note t1 = to_dispatch [of exact_arith 1 10 default_credibility None None, THEN conjunct2]
  note t2 = to_dispatch [of exact_arith "- 10" 10 default_credibility None None, THEN conjunct2]
  note t3 = to_dispatch [of exact_arith 5 1 default_credibility None None, THEN conjunct2]
  from t1 a obtain d1 where d1: "to exact_arith 1 10 default_credibility None None = Inr d1"
    by auto
  from t2 b obtain d2 where d2: "to exact_arith (- 10) 10 default_credibility None None = Inr d2"
    by auto
  from t1 d1 have "self_type d1 = ''lognorm'' \<and> self_x d1 = Some 1 \<and> self_y d1 = Some 10"
    by auto
  moreover from t2 d2 s m
  have "self_type d2 = ''norm'' \<and> self_x d2 = Some (- 10) \<and> self_y d2 = Some 10
      \<and> self_mean d2 = Some (Num 0)"
    by auto
  moreover from t3 have "to exact_arith 5 1 default_credibility None None = Inl HighLowerThanLow"
    by simp
  ultimately show ?thesis
    using d1 d2 by auto
qed

text \<open>The claim as first stated has \<^verbatim>\<open>to\<close> return a lognormal object for every
  \<open>x > 0\<close>. \<^verbatim>\<open>to(5, 1)\<close> returns nothing: \<^verbatim>\<open>lognorm\<close> raises on the reversed
  interval.\<close>

theorem to_reversed_interval_raises:
  "to exact_arith 5 1 default_credibility None None = Inl HighLowerThanLow"
  by (simp add: to_def lognorm_def LognormalDistribution_def BaseDistribution_def Let_def)

section \<open>Conflicting parameters\<close>

text \<open>
  C3, amended. Let an interval endpoint be supplied together with \<^verbatim>\<open>sd\<close>, or let
  neither a complete interval nor \<^verbatim>\<open>sd\<close> be supplied. Then \<^verbatim>\<open>norm\<close> and \<^verbatim>\<open>lognorm\<close>
  both fail. The failure of \<^verbatim>\<open>norm\<close> is a parameter conflict unless both endpoints are
  supplied with \<open>x > y\<close>; the failure of \<^verbatim>\<open>lognorm\<close> is a parameter conflict unless
  both endpoints are supplied with \<open>x > y\<close> or a supplied \<open>x\<close> is not positive. In these
  excepted cases the earlier check of the constructor raises its own error first.
\<close>

theorem parameter_conflict:
  assumes "((x \<noteq> None \<or> y \<noteq> None) \<and> sd \<noteq> None) \<or> ((x = None \<or> y = None) \<and> sd = None)"
  shows "(\<not> (x \<noteq> None \<and> y \<noteq> None \<and> the x > the y) \<longrightarrow>
            fails_with (norm_dist ar x y c mean sd lclip rclip) ParameterConflictError)
       \<and> (\<not> (x \<noteq> None \<and> y \<noteq> None \<and> the x > the y) \<and> \<not> (x \<noteq> None \<and> the x \<le> 0) \<longrightarrow>
            fails_with (lognorm ar x y c mean sd lclip rclip) ParameterConflictError)
       \<and> (\<exists>e. norm_dist ar x y c mean sd lclip rclip = Inl e)
       \<and> (\<exists>e. lognorm ar x y c mean sd lclip rclip = Inl e)"
proof -
  have n: "norm_dist ar x y c mean sd lclip rclip =
      (if x \<noteq> None \<and> y \<noteq> None \<and> the x > the y then Inl HighLowerThanLow
       else if (x = None \<or> y = None) \<and> sd = None then Inl MustDefineEither
       else Inl CannotDefineBoth)"
    using assms
    by (cases x; cases y; cases sd;
        simp add: norm_dist_def NormalDistribution_def BaseDistribution_def Let_def)
  have l: "lognorm ar x y c mean sd lclip rclip =
      (if x \<noteq> None \<and> y \<noteq> None \<and> the x > the y then Inl HighLowerThanLow
       else if x \<noteq> None \<and> the x \<le> 0 then Inl LognormalNotPositive
       else if (x = None \<or> y = None) \<and> sd = None then Inl MustDefineEither
       else Inl CannotDefineBoth)"
    using assms
    by (cases x; cases y; cases sd;
        simp add: lognorm_def LognormalDistribution_def BaseDistribution_def Let_def)
  show ?thesis
    unfolding n l by (simp add: fails_with_def)
qed

text \<open>\<^verbatim>\<open>norm(x=1, y=2, sd=3)\<close> and \<^verbatim>\<open>norm()\<close>, and the same two calls of
  \<^verbatim>\<open>lognorm\<close>.\<close>

theorem parameter_conflict_witness:
  "fails_with (norm_dist exact_arith (Some 1) (Some 2) default_credibility None (Some (Num 3)) None None)
       ParameterConflictError
   \<and> fails_with (norm_dist exact_arith None None default_credibility None None None None)
       ParameterConflictError
   \<and> fails_with (lognorm exact_arith (Some 1) (Some 2) default_credibility None (Some (Num 3)) None None)
       ParameterConflictError
   \<and> fails_with (lognorm exact_arith None None default_credibility None None None None)
       ParameterConflictError"
  using parameter_conflict [of "Some 1" "Some 2" "Some (Num 3)" exact_arith default_credibility None None None]
    parameter_conflict [of None None None exact_arith default_credibility None None None]
  by simp

text \<open>The claim as first stated promises a parameter conflict whenever an endpoint comes
  with \<^verbatim>\<open>sd\<close>. \<^verbatim>\<open>norm(x=2, y=1, sd=3)\<close> raises the ordering message instead.\<close>

theorem reversed_interval_with_sd:
  "norm_dist exact_arith (Some 2) (Some 1) default_credibility None (Some (Num 3)) None None
     = Inl HighLowerThanLow
   \<and> \<not> fails_with
         (norm_dist exact_arith (Some 2) (Some 1) default_credibility None (Some (Num 3)) None None)
         ParameterConflictError"
  by (simp add: norm_dist_def NormalDistribution_def BaseDistribution_def Let_def fails_with_def)

section \<open>Bernoulli and binomial probabilities\<close>

text \<open>What \<^verbatim>\<open>bernoulli\<close> does on a float, and on a value that is not a float.\<close>

lemma bernoulli_float:
  "bernoulli (PyFloat r) =
     (if r < 0 \<or> r > 1 then Inl BernoulliOutOfRange
      else Inr (BaseDistribution\<lparr>self_p := PyFloat r, self_type := ''bernoulli''\<rparr>))"
  by (simp add: bernoulli_def BernoulliDistribution_def)

lemma bernoulli_not_float:
  "\<not> isinstance_float p \<Longrightarrow> bernoulli p = Inl BernoulliNotFloatOrInt"
  by (simp add: bernoulli_def BernoulliDistribution_def)

text \<open>
  C4. \<^verbatim>\<open>bernoulli\<close> is to accept every int or float in \<open>[0, 1]\<close>, and to reject a number
  outside \<open>[0, 1]\<close> with a domain error. On the integers 1, 0 and 2 the constructor
  raises \<^verbatim>\<open>bernoulli p must be a float or int\<close>: an integer is never accepted, and an
  integer outside the range fails the type test before the range test is reached.
\<close>

theorem bernoulli_rejects_int:
  "bernoulli (PyInt 1) = Inl BernoulliNotFloatOrInt
   \<and> bernoulli (PyInt 0) = Inl BernoulliNotFloatOrInt
   \<and> bernoulli (PyInt 2) = Inl BernoulliNotFloatOrInt"
  by (simp add: bernoulli_def BernoulliDistribution_def)

text \<open>
  C5. \<^verbatim>\<open>binomial(n, p)\<close> is to reject every \<open>p\<close> outside \<open>[0, 1]\<close>. \<^verbatim>\<open>binomial(1, 1.5)\<close>
  returns an object storing \<open>p = 1.5\<close>.
\<close>

theorem binomial_accepts_any_p:
  "binomial_dist (PyInt 1) (PyFloat 1.5)
     = Inr (BaseDistribution\<lparr>self_n := PyInt 1, self_p := PyFloat 1.5, self_type := ''binomial''\<rparr>)"
  by (simp add: binomial_dist_def BinomialDistribution_def)

section \<open>Domain and ordering of the interval\<close>

text \<open>
  C6, amended. For every supplied low endpoint \<open>x \<le> 0\<close>, \<^verbatim>\<open>lognorm\<close> fails, whatever
  the other arguments are. The failure is the domain error of the lognormal constructor
  when \<open>y\<close> is not supplied or \<open>x \<le> y\<close>; when \<open>y\<close> is supplied and \<open>x > y\<close> it is the
  ordering error, which the constructor checks first.
\<close>

theorem lognorm_nonpositive_low:
  assumes "x \<le> 0"
  shows "(y = None \<or> x \<le> the y \<longrightarrow>
            lognorm ar (Some x) y c mean sd lclip rclip = Inl LognormalNotPositive
            \<and> fails_with (lognorm ar (Some x) y c mean sd lclip rclip) DomainError)
       \<and> (y \<noteq> None \<and> x > the y \<longrightarrow>
            lognorm ar (Some x) y c mean sd lclip rclip = Inl HighLowerThanLow
            \<and> fails_with (lognorm ar (Some x) y c mean sd lclip rclip) RangeOrderError)"
  using assms
  by (auto simp add: lognorm_def LognormalDistribution_def BaseDistribution_def Let_def
        fails_with_def)

text \<open>\<^verbatim>\<open>lognorm(x=-1, y=5)\<close>, \<^verbatim>\<open>lognorm(x=0)\<close> and \<^verbatim>\<open>lognorm(x=-1, y=-5)\<close>.\<close>

theorem lognorm_nonpositive_low_witness:
  "fails_with (lognorm exact_arith (Some (- 1)) (Some 5) default_credibility None None None None)
      DomainError
   \<and> fails_with (lognorm exact_arith (Some 0) None default_credibility None None None None)
      DomainError
   \<and> fails_with (lognorm exact_arith (Some (- 1)) (Some (- 5)) default_credibility None None None None)
      RangeOrderError"
  using lognorm_nonpositive_low [of "- 1" "Some 5" exact_arith default_credibility None None None None]
    lognorm_nonpositive_low [of 0 None exact_arith default_credibility None None None None]
    lognorm_nonpositive_low [of "- 1" "Some (- 5)" exact_arith default_credibility None None None None]
  by (simp add: fails_with_def)

text \<open>The claim as first stated promises a domain error for every \<open>x \<le> 0\<close>.
  \<^verbatim>\<open>lognorm(x=-1, y=-5)\<close> raises the ordering message instead.\<close>

theorem lognorm_reversed_negative_interval:
  "lognorm exact_arith (Some (- 1)) (Some (- 5)) default_credibility None None None None
     = Inl HighLowerThanLow
   \<and> \<not> fails_with
        (lognorm exact_arith (Some (- 1)) (Some (- 5)) default_credibility None None None None)
        DomainError"
  by (simp add: lognorm_def LognormalDistribution_def BaseDistribution_def Let_def fails_with_def)

text \<open>
  C7. Whenever both endpoints are supplied and \<open>x > y\<close>, each of \<^verbatim>\<open>norm\<close>, \<^verbatim>\<open>lognorm\<close>,
  \<^verbatim>\<open>tdist\<close> and \<^verbatim>\<open>log_tdist\<close> fails with the ordering message, a range-order error,
  whatever the other arguments are.
\<close>

theorem range_order:
  assumes "x > y"
  shows "norm_dist ar (Some x) (Some y) c mean sd lclip rclip = Inl HighLowerThanLow
       \<and> fails_with (norm_dist ar (Some x) (Some y) c mean sd lclip rclip) RangeOrderError
       \<and> lognorm ar (Some x) (Some y) c mean sd lclip rclip = Inl HighLowerThanLow
       \<and> fails_with (lognorm ar (Some x) (Some y) c mean sd lclip rclip) RangeOrderError
       \<and> tdist (Some x) (Some y) t c lclip rclip = Inl HighLowerThanLow
       \<and> fails_with (tdist (Some x) (Some y) t c lclip rclip) RangeOrderError
       \<and> log_tdist (Some x) (Some y) t c lclip rclip = Inl HighLowerThanLow
       \<and> fails_with (log_tdist (Some x) (Some y) t c lclip rclip) RangeOrderError"
proof -
  have n: "norm_dist ar (Some x) (Some y) c mean sd lclip rclip = Inl HighLowerThanLow"
    using assms
    by (simp add: norm_dist_def NormalDistribution_def BaseDistribution_def Let_def)
  have l: "lognorm ar (Some x) (Some y) c mean sd lclip rclip = Inl HighLowerThanLow"
    using assms
    by (simp add: lognorm_def LognormalDistribution_def BaseDistribution_def Let_def)
  have t: "tdist (Some x) (Some y) t c lclip rclip = Inl HighLowerThanLow"
    using assms
    by (simp add: tdist_def TDistribution_def BaseDistribution_def Let_def)
  have lt: "log_tdist (Some x) (Some y) t c lclip rclip = Inl HighLowerThanLow"
    using assms
    by (simp add: log_tdist_def LogTDistribution_def BaseDistribution_def Let_def)
  show ?thesis
    unfolding n l t lt by (simp add: fails_with_def)
qed

text \<open>The reversed interval from 2 to 1.\<close>

theorem range_order_witness:
  "fails_with (norm_dist exact_arith (Some 2) (Some 1) default_credibility None None None None)
      RangeOrderError
   \<and> fails_with (lognorm exact_arith (Some 2) (Some 1) default_credibility None None None None)
      RangeOrderError
   \<and> fails_with (tdist (Some 2) (Some 1) 1 default_credibility None None) RangeOrderError
   \<and> fails_with (log_tdist (Some 2) (Some 1) 1 default_credibility None None) RangeOrderError"
  using range_order [of 1 2 exact_arith default_credibility None None None None 1]
  by (simp add: fails_with_def)

section \<open>Student-t distributions without an interval\<close>

text \<open>
  C8. \<^verbatim>\<open>tdist\<close> and \<^verbatim>\<open>log_tdist\<close> called with neither \<open>x\<close> nor \<open>y\<close> return an object
  whose stored credibility is \<^verbatim>\<open>None\<close>, whatever credibility was passed.
\<close>

theorem tdist_no_interval_credibility:
  "(\<exists>d. tdist None None t c lclip rclip = Inr d \<and> self_credibility d = None
        \<and> self_t d = Some t \<and> self_type d = ''tdist'')
   \<and> (\<exists>d. log_tdist None None t c lclip rclip = Inr d \<and> self_credibility d = None
        \<and> self_t d = Some t \<and> self_type d = ''log_tdist'')"
  by (simp add: tdist_def TDistribution_def log_tdist_def LogTDistribution_def
        BaseDistribution_def Let_def)

text \<open>The default credibility and a credibility of 50, with one degree of freedom.\<close>

theorem tdist_no_interval_credibility_witness:
  "(\<exists>d. tdist None None 1 default_credibility None None = Inr d \<and> self_credibility d = None)
   \<and> (\<exists>d. tdist None None 1 50 None None = Inr d \<and> self_credibility d = None)
   \<and> (\<exists>d. log_tdist None None 1 default_credibility None None = Inr d \<and> self_credibility d = None)
   \<and> (\<exists>d. log_tdist None None 1 50 None None = Inr d \<and> self_credibility d = None)"
  using tdist_no_interval_credibility [of 1 default_credibility None None]
    tdist_no_interval_credibility [of 1 50 None None]
  by auto

section \<open>Discrete distributions\<close>

text \<open>
  C9. \<^verbatim>\<open>discrete(items)\<close> returns an object storing \<open>items\<close> unchanged whenever
  \<open>items\<close> is a mapping or an ordered sequence, that is, a \<^verbatim>\<open>dict\<close> or a \<^verbatim>\<open>list\<close> (of
  pairs or of bare values alike); on every other value, a number or a tuple for
  instance, it fails with a validation error.
\<close>

theorem discrete_dict_or_list:
  "(isinstance_dict items \<or> isinstance_list items \<longrightarrow>
      discrete items = Inr (BaseDistribution\<lparr>self_items := items, self_type := ''discrete''\<rparr>))
   \<and> (\<not> isinstance_dict items \<and> \<not> isinstance_list items \<longrightarrow>
      discrete items = Inl DiscreteNotDictOrList
      \<and> fails_with (discrete items) ValidationError)"
  by (auto simp add: discrete_def DiscreteDistribution_def fails_with_def)

text \<open>\<^verbatim>\<open>discrete({'a': 0.1, 'b': 0.9})\<close>, \<^verbatim>\<open>discrete([[0.1, 'a'], [0.9, 'b']])\<close>,
  \<^verbatim>\<open>discrete(['a', 'b'])\<close> and \<^verbatim>\<open>discrete(42)\<close>.\<close>

theorem discrete_dict_or_list_witness:
  "(\<exists>d. discrete (PyDict [(PyStr ''a'', PyFloat 0.1), (PyStr ''b'', PyFloat 0.9)]) = Inr d
        \<and> self_items d = PyDict [(PyStr ''a'', PyFloat 0.1), (PyStr ''b'', PyFloat 0.9)])
   \<and> (\<exists>d. discrete (PyList [PyList [PyFloat 0.1, PyStr ''a''], PyList [PyFloat 0.9, PyStr ''b'']]) = Inr d
        \<and> self_items d = PyList [PyList [PyFloat 0.1, PyStr ''a''], PyList [PyFloat 0.9, PyStr ''b'']])
   \<and> (\<exists>d. discrete (PyList [PyStr ''a'', PyStr ''b'']) = Inr d
        \<and> self_items d = PyList [PyStr ''a'', PyStr ''b''])
   \<and> fails_with (discrete (PyInt 42)) ValidationError"
  using discrete_dict_or_list [of "PyDict [(PyStr ''a'', PyFloat 0.1), (PyStr ''b'', PyFloat 0.9)]"]
    discrete_dict_or_list [of "PyList [PyList [PyFloat 0.1, PyStr ''a''], PyList [PyFloat 0.9, PyStr ''b'']]"]
    discrete_dict_or_list [of "PyList [PyStr ''a'', PyStr ''b'']"]
    discrete_dict_or_list [of "PyInt 42"]
  by (simp add: fails_with_def)

section \<open>A mean supplied with an interval\<close>

text \<open>
  C10. For every \<open>x \<le> y\<close> and every mean \<open>m\<close>, \<^verbatim>\<open>norm(x=x, y=y, mean=m)\<close> with \<^verbatim>\<open>sd\<close>
  omitted raises nothing and returns an object with \<open>mean = m\<close> and \<open>sd = None\<close>: the
  inference from the interval is skipped. The same holds for
  \<^verbatim>\<open>lognorm(x=x, y=y, mean=m)\<close> when \<open>x > 0\<close>.
\<close>

theorem mean_with_interval:
  assumes "x \<le> y"
  shows "(\<exists>d. norm_dist ar (Some x) (Some y) c (Some m) None lclip rclip = Inr d
            \<and> self_mean d = Some m \<and> self_sd d = None)
       \<and> (0 < x \<longrightarrow>
           (\<exists>d. lognorm ar (Some x) (Some y) c (Some m) None lclip rclip = Inr d
              \<and> self_mean d = Some m \<and> self_sd d = None))"
  using assms
  by (simp add: norm_dist_def NormalDistribution_def lognorm_def LognormalDistribution_def
        BaseDistribution_def Let_def)

text \<open>The interval from 1 to 10 with the mean 3.\<close>

theorem mean_with_interval_witness:
  "(\<exists>d. norm_dist exact_arith (Some 1) (Some 10) default_credibility (Some (Num 3)) None None None = Inr d
        \<and> self_mean d = Some (Num 3) \<and> self_sd d = None)
   \<and> (\<exists>d. lognorm exact_arith (Some 1) (Some 10) default_credibility (Some (Num 3)) None None None = Inr d
        \<and> self_mean d = Some (Num 3) \<and> self_sd d = None)"
  using mean_with_interval [of 1 10 exact_arith default_credibility "Num 3" None None]
  by simp

end
